theory Spec2Isabelle
  imports Complex_Main
begin

section \<open>The cart-pole swing-up plant of \<^verbatim>\<open>myCartpoleF_SwingUp.py\<close>\<close>

text \<open>
  The class \<^verbatim>\<open>CartPoleSwingUp\<close> is embedded over exact real arithmetic: a Python float
  and a numpy \<^verbatim>\<open>float32\<close> are both a \<open>real\<close>, so the rounding of
  \<^verbatim>\<open>np.array(..., dtype=np.float32)\<close> is not part of the model. An exception is a value
  of the type \<open>error\<close>; a method that mutates the object returns the object it leaves.
  The renderer is not modelled: the object is the one \<^verbatim>\<open>__init__\<close> builds with its
  default \<^verbatim>\<open>render_mode = None\<close>, for which \<^verbatim>\<open>step\<close> and \<^verbatim>\<open>reset\<close> never call
  \<^verbatim>\<open>render\<close>.
\<close>

subsection \<open>Data\<close>

text \<open>The state array \<^verbatim>\<open>(x, x_dot, theta, theta_dot)\<close>, and the five-element observation.\<close>

type_synonym state = "real \<times> real \<times> real \<times> real"

type_synonym observation = "real \<times> real \<times> real \<times> real \<times> real"

datatype error = AssertionError | ZeroDivisionError | ValueError

text \<open>
  The fields of the object that the physics core reads or writes. \<open>length_p\<close> is the
  attribute \<^verbatim>\<open>length\<close>; \<open>state\<close> is \<open>None\<close> until the first \<^verbatim>\<open>reset\<close>.
\<close>

record env =
  fps :: real
  gravity :: real
  masscart :: real
  masspole :: real
  length_p :: real
  r_mp :: real
  Jm :: real
  Kg :: real
  Rm :: real
  Kt :: real
  Km :: real
  Beq :: real
  Bp :: real
  force_mag :: real
  tau :: real
  kinematics_integrator :: string
  theta_threshold_radians :: real
  x_threshold :: real
  max_action :: real
  state :: "state option"
  steps_beyond_terminated :: "int option"

text \<open>\<^verbatim>\<open>__init__\<close>: the hardware constants, no state, no counter.\<close>

definition construct :: env where
  "construct =
     \<lparr> fps = 100,
       gravity = 9.81,
       masscart = 0.57 + 0.37,
       masspole = 0.230,
       length_p = 0.3302,
       r_mp = 6.35 / 1000,
       Jm = 3.90 / 10000000,
       Kg = 3.71,
       Rm = 2.6,
       Kt = 0.00767,
       Km = 0.00767,
       Beq = 5.4,
       Bp = 0.0024,
       force_mag = 10.0,
       tau = 1 / 100,
       kinematics_integrator = ''RK4'',
       theta_threshold_radians = 0.2,
       x_threshold = 0.25,
       max_action = 1.0,
       state = None,
       steps_beyond_terminated = None \<rparr>"

subsection \<open>Array arithmetic\<close>

text \<open>numpy's element-wise \<^verbatim>\<open>+\<close>, \<^verbatim>\<open>-\<close>, scalar \<^verbatim>\<open>*\<close> and scalar \<^verbatim>\<open>/\<close> on arrays of four.\<close>

fun vadd :: "state \<Rightarrow> state \<Rightarrow> state" where
  "vadd (a, b, c, d) (a', b', c', d') = (a + a', b + b', c + c', d + d')"

fun vsub :: "state \<Rightarrow> state \<Rightarrow> state" where
  "vsub (a, b, c, d) (a', b', c', d') = (a - a', b - b', c - c', d - d')"

fun smul :: "real \<Rightarrow> state \<Rightarrow> state" where
  "smul k (a, b, c, d) = (k * a, k * b, k * c, k * d)"

fun sdiv :: "state \<Rightarrow> real \<Rightarrow> state" where
  "sdiv (a, b, c, d) k = (a / k, b / k, c / k, d / k)"

text \<open>Sequencing of calls that may raise.\<close>

fun bind_res :: "error + 'a \<Rightarrow> ('a \<Rightarrow> error + 'b) \<Rightarrow> error + 'b" where
  "bind_res (Inl e) f = Inl e"
| "bind_res (Inr v) f = f v"

subsection \<open>The equations of motion\<close>

text \<open>
  The two assignments \<^verbatim>\<open>xacc = ...\<close> and \<^verbatim>\<open>thetaacc = ...\<close> stand, letter for letter
  the same, in \<^verbatim>\<open>RHS\<close>, \<^verbatim>\<open>stepPhysics\<close> and \<^verbatim>\<open>stepSwingUp\<close>; \<open>accelerations\<close> is that
  pair of assignments, with \<open>d\<close> the line before them. A float division by zero raises
  \<^verbatim>\<open>ZeroDivisionError\<close>. Every divisor of the two formulas is a product of \<^verbatim>\<open>Rm\<close>,
  \<^verbatim>\<open>length\<close>, \<^verbatim>\<open>masspole\<close> and the common term \<open>D\<close>, so one test covers all of them.
\<close>

definition d_const :: "env \<Rightarrow> real" where
  "d_const e = 4 * masscart e * (r_mp e)\<^sup>2 + masspole e * (r_mp e)\<^sup>2 + 4 * Jm e * (Kg e)\<^sup>2"

definition xacc_of :: "env \<Rightarrow> real \<Rightarrow> real \<Rightarrow> real \<Rightarrow> real \<Rightarrow> real \<Rightarrow> real" where
  "xacc_of e costheta sintheta x_dot theta_dot force =
     (let d = d_const e in
      ((-4 * (Rm e * (r_mp e)\<^sup>2 * Beq e + (Kg e)\<^sup>2 * Kt e * Km e))
          / (Rm e * (d + 3 * (r_mp e)\<^sup>2 * masspole e * sintheta\<^sup>2))) * x_dot
      + ((-3 * Bp e * (r_mp e)\<^sup>2 * costheta)
          / (length_p e * (d + 3 * (r_mp e)\<^sup>2 * masspole e * sintheta\<^sup>2))) * theta_dot
      + ((-4 * masspole e * length_p e * (r_mp e)\<^sup>2 * sintheta)
          / (d + 3 * (r_mp e)\<^sup>2 * masspole e * sintheta\<^sup>2)) * theta_dot\<^sup>2
      + ((3 * masspole e * gravity e * (r_mp e)\<^sup>2 * costheta * sintheta)
          / (d + 3 * (r_mp e)\<^sup>2 * masspole e * sintheta\<^sup>2))
      + (4 * r_mp e * Kg e * Kt e)
          / (Rm e * (d + 3 * (r_mp e)\<^sup>2 * masspole e * sintheta\<^sup>2)) * force)"

definition thetaacc_of :: "env \<Rightarrow> real \<Rightarrow> real \<Rightarrow> real \<Rightarrow> real \<Rightarrow> real \<Rightarrow> real" where
  "thetaacc_of e costheta sintheta x_dot theta_dot force =
     (let d = d_const e in
      ((-3 * (Rm e * (r_mp e)\<^sup>2 * Beq e + (Kg e)\<^sup>2 * Kt e * Km e) * costheta)
          / (length_p e * Rm e * (d + 3 * (r_mp e)\<^sup>2 * masspole e * sintheta\<^sup>2))) * x_dot
      + ((-3 * (masscart e * (r_mp e)\<^sup>2 + masspole e * (r_mp e)\<^sup>2 + Jm e * (Kg e)\<^sup>2) * Bp e)
          / (masspole e * (length_p e)\<^sup>2 * (d + 3 * (r_mp e)\<^sup>2 * masspole e * sintheta\<^sup>2)))
        * theta_dot
      + ((-3 * masspole e * (r_mp e)\<^sup>2 * sintheta * costheta)
          / (d + 3 * (r_mp e)\<^sup>2 * masspole e * sintheta\<^sup>2)) * theta_dot\<^sup>2
      + ((3 * (masscart e * (r_mp e)\<^sup>2 + masspole e * (r_mp e)\<^sup>2 + Jm e * (Kg e)\<^sup>2)
            * gravity e * sintheta)
          / (length_p e * (d + 3 * (r_mp e)\<^sup>2 * masspole e * sintheta\<^sup>2)))
      + (3 * r_mp e * Kg e * Kt e * costheta)
          / (length_p e * Rm e * (d + 3 * (r_mp e)\<^sup>2 * masspole e * sintheta\<^sup>2)) * force)"

definition divisor_zero :: "env \<Rightarrow> real \<Rightarrow> bool" where
  "divisor_zero e sintheta \<longleftrightarrow>
     Rm e = 0 \<or> length_p e = 0 \<or> masspole e = 0
     \<or> d_const e + 3 * (r_mp e)\<^sup>2 * masspole e * sintheta\<^sup>2 = 0"

definition accelerations ::
  "env \<Rightarrow> real \<Rightarrow> real \<Rightarrow> real \<Rightarrow> real \<Rightarrow> real \<Rightarrow> error + (real \<times> real)" where
  "accelerations e costheta sintheta x_dot theta_dot force =
     (if divisor_zero e sintheta then Inl ZeroDivisionError
      else Inr (xacc_of e costheta sintheta x_dot theta_dot force,
                thetaacc_of e costheta sintheta x_dot theta_dot force))"

text \<open>
  \<^verbatim>\<open>RHS(self, y, force)\<close>. The body unpacks \<^verbatim>\<open>self.state\<close>, and then assigns
  \<^verbatim>\<open>y = self.state\<close>: the argument \<open>y\<close> is never read.
\<close>

definition RHS :: "env \<Rightarrow> state \<Rightarrow> real \<Rightarrow> error + state" where
  "RHS e y force =
     (case state e of
        None \<Rightarrow> Inl AssertionError
      | Some (x, x_dot, theta, theta_dot) \<Rightarrow>
          let costheta = cos theta; sintheta = sin theta in
          bind_res (accelerations e costheta sintheta x_dot theta_dot force)
            (\<lambda>(xacc, thetaacc). Inr (x_dot, xacc, theta_dot, thetaacc)))"

text \<open>
  The derivative the specification describes: the same equations of motion, read at the
  argument \<open>y\<close>. It is the reference that \<open>RHS\<close> is compared with.
\<close>

definition derivative_at :: "env \<Rightarrow> state \<Rightarrow> real \<Rightarrow> state" where
  "derivative_at e y force =
     (case y of (x, x_dot, theta, theta_dot) \<Rightarrow>
        (x_dot, xacc_of e (cos theta) (sin theta) x_dot theta_dot force,
         theta_dot, thetaacc_of e (cos theta) (sin theta) x_dot theta_dot force))"

subsection \<open>The integrators\<close>

text \<open>
  The branch \<^verbatim>\<open>"euler"\<close> and the branch \<^verbatim>\<open>"semi-euler"\<close>: four assignments in the
  order of the source, each reading the variables as the earlier ones left them.
\<close>

definition euler_update :: "env \<Rightarrow> real \<Rightarrow> real \<Rightarrow> state \<Rightarrow> state" where
  "euler_update e xacc thetaacc s =
     (case s of (x, x_dot, theta, theta_dot) \<Rightarrow>
        let x = x + tau e * x_dot;
            x_dot = x_dot + tau e * xacc;
            theta = theta + tau e * theta_dot;
            theta_dot = theta_dot + tau e * thetaacc
        in (x, x_dot, theta, theta_dot))"

definition semi_euler_update :: "env \<Rightarrow> real \<Rightarrow> real \<Rightarrow> state \<Rightarrow> state" where
  "semi_euler_update e xacc thetaacc s =
     (case s of (x, x_dot, theta, theta_dot) \<Rightarrow>
        let x_dot = x_dot + tau e * xacc;
            x = x + tau e * x_dot;
            theta_dot = theta_dot + tau e * thetaacc;
            theta = theta + tau e * theta_dot
        in (x, x_dot, theta, theta_dot))"

text \<open>
  The branch \<^verbatim>\<open>"RK4"\<close>, with \<open>y\<close> the value of \<^verbatim>\<open>y = self.state\<close>:
  \<^verbatim>\<open>k2 = self.RHS(y + self.tau * k1 / 2, force = force)\<close> and so on.
\<close>

definition rk4_update :: "env \<Rightarrow> state \<Rightarrow> real \<Rightarrow> error + state" where
  "rk4_update e y force =
     bind_res (RHS e y force) (\<lambda>k1.
     bind_res (RHS e (vadd y (sdiv (smul (tau e) k1) 2)) force) (\<lambda>k2.
     bind_res (RHS e (vadd y (sdiv (smul (tau e) k2) 2)) force) (\<lambda>k3.
     bind_res (RHS e (vadd y (smul (tau e) k3)) force) (\<lambda>k4.
     Inr (vadd y (smul (tau e / 6) (vadd (vadd (vadd k1 (smul 2 k2)) (smul 2 k3)) k4)))))))"

text \<open>
  The three \<^verbatim>\<open>if\<close> statements that close \<^verbatim>\<open>stepPhysics\<close> and \<^verbatim>\<open>stepSwingUp\<close>, one
  after the other. \<open>s\<close> holds the local variables \<^verbatim>\<open>x, x_dot, theta, theta_dot\<close>, \<open>y\<close> is
  the stored state.
\<close>

definition integrate :: "env \<Rightarrow> state \<Rightarrow> state \<Rightarrow> real \<Rightarrow> real \<Rightarrow> real \<Rightarrow> error + state" where
  "integrate e y s xacc thetaacc force =
     (let s = (if kinematics_integrator e = ''euler''
               then euler_update e xacc thetaacc s else s);
          s = (if kinematics_integrator e = ''semi-euler''
               then semi_euler_update e xacc thetaacc s else s)
      in if kinematics_integrator e = ''RK4'' then rk4_update e y force else Inr s)"

definition stepPhysics :: "env \<Rightarrow> real \<Rightarrow> error + state" where
  "stepPhysics e force =
     (case state e of
        None \<Rightarrow> Inl AssertionError
      | Some y \<Rightarrow>
          (case y of (x, x_dot, theta, theta_dot) \<Rightarrow>
             let costheta = cos theta; sintheta = sin theta in
             bind_res (accelerations e costheta sintheta x_dot theta_dot force)
               (\<lambda>(xacc, thetaacc).
                  integrate e y (x, x_dot, theta, theta_dot) xacc thetaacc force)))"

text \<open>
  \<^verbatim>\<open>stepSwingUp\<close> differs from \<^verbatim>\<open>stepPhysics\<close> in one line,
  \<^verbatim>\<open>theta = math.atan(sintheta/costheta)\<close>, after the sine and the cosine are taken.
  The quotient of two Python floats raises \<^verbatim>\<open>ZeroDivisionError\<close> when the divisor
  is zero.
\<close>

definition stepSwingUp :: "env \<Rightarrow> real \<Rightarrow> error + state" where
  "stepSwingUp e force =
     (case state e of
        None \<Rightarrow> Inl AssertionError
      | Some y \<Rightarrow>
          (case y of (x, x_dot, theta, theta_dot) \<Rightarrow>
             let costheta = cos theta; sintheta = sin theta in
             if costheta = 0 then Inl ZeroDivisionError
             else
               let theta = arctan (sintheta / costheta) in
               bind_res (accelerations e costheta sintheta x_dot theta_dot force)
                 (\<lambda>(xacc, thetaacc).
                    integrate e y (x, x_dot, theta, theta_dot) xacc thetaacc force)))"

subsection \<open>The step protocol\<close>

text \<open>\<^verbatim>\<open>np.clip(a, a_min, a_max)\<close> is \<^verbatim>\<open>minimum(a_max, maximum(a, a_min))\<close>.\<close>

definition clip :: "real \<Rightarrow> real \<Rightarrow> real \<Rightarrow> real" where
  "clip a a_min a_max = min a_max (max a a_min)"

definition warning_text :: string where
  "warning_text =
     ''You are calling 'step()' even though this environment has already returned terminated = True. You should always call 'reset()' once you receive 'terminated = True' -- any further steps are undefined behavior.''"

text \<open>
  What \<^verbatim>\<open>step\<close> hands back: the tuple \<^verbatim>\<open>(obs, reward, terminated, off_track, {})\<close>
  without its empty dictionary, and \<open>logged\<close>, the messages the call gave to
  \<^verbatim>\<open>logger.warn\<close>.
\<close>

record step_out =
  obs :: observation
  reward :: real
  terminated :: bool
  off_track :: bool
  logged :: "string list"

text \<open>
  \<^verbatim>\<open>step\<close>. When \<^verbatim>\<open>stepSwingUp\<close> raises, the assignment to \<^verbatim>\<open>self.state\<close> has not
  happened and the object is as it was.
\<close>

definition step :: "env \<Rightarrow> real \<Rightarrow> (error + step_out) \<times> env" where
  "step e action =
     (let action = clip (max_action e * action) (- max_action e) (max_action e);
          force = force_mag e * action
      in case stepSwingUp e force of
           Inl err \<Rightarrow> (Inl err, e)
         | Inr s \<Rightarrow>
             (case s of (x, x_dot, theta, theta_dot) \<Rightarrow>
                let e = e\<lparr>state := Some s\<rparr>;
                    terminated = (\<bar>theta\<bar> < theta_threshold_radians e / 4);
                    off_track = (\<bar>x\<bar> > x_threshold e);
                    (reward, logged, e) =
                      (if \<not> terminated then
                         (if off_track then (- 1000, [], e) else (1000, [], e))
                       else
                         (case steps_beyond_terminated e of
                            None \<Rightarrow> (100, [], e\<lparr>steps_beyond_terminated := Some 0\<rparr>)
                          | Some n \<Rightarrow>
                              (1000, (if n = 0 then [warning_text] else []),
                               e\<lparr>steps_beyond_terminated := Some (n + 1)\<rparr>)));
                    obs = (x, x_dot, cos theta, sin theta, theta_dot)
                in (Inr \<lparr>obs = obs, reward = reward, terminated = terminated,
                          off_track = off_track, logged = logged\<rparr>, e)))"

subsection \<open>The reset protocol\<close>

text \<open>
  \<^verbatim>\<open>utils.maybe_parse_reset_bounds\<close> of gymnasium, on an \<^verbatim>\<open>options\<close> dictionary whose
  values are numbers: the defaults when there is no dictionary or no key, and
  \<^verbatim>\<open>ValueError\<close> when the lower bound is above the upper one.
\<close>

definition maybe_parse_reset_bounds ::
  "(string \<rightharpoonup> real) option \<Rightarrow> real \<Rightarrow> real \<Rightarrow> error + (real \<times> real)" where
  "maybe_parse_reset_bounds options default_low default_high =
     (case options of
        None \<Rightarrow> Inr (default_low, default_high)
      | Some opts \<Rightarrow>
          let low = (case opts ''low'' of Some v \<Rightarrow> v | None \<Rightarrow> default_low);
              high = (case opts ''high'' of Some v \<Rightarrow> v | None \<Rightarrow> default_high)
          in if low > high then Inl ValueError else Inr (low, high))"

text \<open>
  \<^verbatim>\<open>reset\<close>. The generator is a parameter: \<open>uniform low high\<close> is the array that
  \<^verbatim>\<open>self.np_random.uniform(low=low, high=high, size=(4,))\<close> returns. The result is the
  observation of the tuple \<^verbatim>\<open>(obs, {})\<close>.
\<close>

definition reset ::
  "env \<Rightarrow> (string \<rightharpoonup> real) option \<Rightarrow> (real \<Rightarrow> real \<Rightarrow> state) \<Rightarrow> (error + observation) \<times> env"
  where
  "reset e options uniform =
     (case maybe_parse_reset_bounds options (- 0.08) 0.08 of
        Inl err \<Rightarrow> (Inl err, e)
      | Inr (low, high) \<Rightarrow>
          let s = vsub (uniform low high) (0, 0, pi, 0);
              e = e\<lparr>state := Some s\<rparr>;
              e = e\<lparr>steps_beyond_terminated := None\<rparr>
          in (case s of (x, x_dot, theta, theta_dot) \<Rightarrow>
                (Inr (sin theta, cos theta, theta_dot, x, x_dot), e)))"

subsection \<open>The plant with its default constants\<close>

text \<open>
  The object that \<^verbatim>\<open>__init__\<close> built, at a later moment: the constants are the ones of
  \<open>construct\<close>, the state is \<open>st\<close> and the counter is \<open>c\<close>.
\<close>

definition plant :: "state option \<Rightarrow> int option \<Rightarrow> env" where
  "plant st c = construct\<lparr>state := st, steps_beyond_terminated := c\<rparr>"

text \<open>
  The reference integrator of the specification, in its words: four evaluations of the
  derivative at the perturbed states, the force held constant, weights 1:2:2:1.
\<close>

definition rk4_spec :: "env \<Rightarrow> state \<Rightarrow> real \<Rightarrow> state" where
  "rk4_spec e s F =
     (let k1 = derivative_at e s F;
          k2 = derivative_at e (vadd s (smul (tau e / 2) k1)) F;
          k3 = derivative_at e (vadd s (smul (tau e / 2) k2)) F;
          k4 = derivative_at e (vadd s (smul (tau e) k3)) F
      in vadd s (smul (tau e / 6) (vadd (vadd (vadd k1 (smul 2 k2)) (smul 2 k3)) k4)))"

text \<open>A sequence of \<^verbatim>\<open>step\<close> calls with no \<^verbatim>\<open>reset\<close> between them: the object they
  leave, and the messages they hand to the logger. A call that raises leaves the object
  as it was and logs nothing.\<close>

fun steps :: "env \<Rightarrow> real list \<Rightarrow> env" where
  "steps e [] = e"
| "steps e (a # as) = steps (snd (step e a)) as"

fun warnings :: "env \<Rightarrow> real list \<Rightarrow> string list" where
  "warnings e [] = []"
| "warnings e (a # as) =
     (case fst (step e a) of Inl err \<Rightarrow> [] | Inr out \<Rightarrow> logged out)
     @ warnings (snd (step e a)) as"

text \<open>A generator whose next draw is \<open>u\<close>, and an \<^verbatim>\<open>options\<close> dictionary with both bounds.\<close>

definition fixed_draw :: "state \<Rightarrow> real \<Rightarrow> real \<Rightarrow> state" where
  "fixed_draw u low high = u"

definition bounds_options :: "real \<Rightarrow> real \<Rightarrow> (string \<rightharpoonup> real) option" where
  "bounds_options low high = Some [''low'' \<mapsto> low, ''high'' \<mapsto> high]"

text \<open>
  numpy's \<^verbatim>\<open>Generator.uniform(low, high, size=(4,))\<close>: each sample is
  \<^verbatim>\<open>low + (high - low) * r\<close>, where \<open>r\<close> is the next double of the bit generator, a
  number in \<open>[0, 1)\<close>. The argument \<open>r\<close> holds the four doubles that the call consumes.
\<close>

definition np_uniform :: "state \<Rightarrow> real \<Rightarrow> real \<Rightarrow> state" where
  "np_uniform r low high =
     (case r of (r0, r1, r2, r3) \<Rightarrow>
        (low + (high - low) * r0, low + (high - low) * r1,
         low + (high - low) * r2, low + (high - low) * r3))"

section \<open>Properties\<close>

subsection \<open>Auxiliary facts\<close>

lemma plant_fields:
  "fps (plant st c) = 100" "gravity (plant st c) = 981/100" "masscart (plant st c) = 94/100"
  "masspole (plant st c) = 23/100" "length_p (plant st c) = 3302/10000"
  "r_mp (plant st c) = 635/100000" "Jm (plant st c) = 39/100000000"
  "Kg (plant st c) = 371/100" "Rm (plant st c) = 26/10"
  "Kt (plant st c) = 767/100000" "Km (plant st c) = 767/100000" "Beq (plant st c) = 54/10"
  "Bp (plant st c) = 24/10000" "force_mag (plant st c) = 10" "tau (plant st c) = 1/100"
  "kinematics_integrator (plant st c) = ''RK4''"
  "theta_threshold_radians (plant st c) = 2/10"
  "x_threshold (plant st c) = 25/100" "max_action (plant st c) = 1" "state (plant st c) = st"
  "steps_beyond_terminated (plant st c) = c"
  by (simp_all add: construct_def plant_def)

lemma plant_update:
  "(plant st c)\<lparr>state := st'\<rparr> = plant st' c"
  "(plant st c)\<lparr>steps_beyond_terminated := c'\<rparr> = plant st c'"
  by (simp_all add: plant_def)

lemma construct_plant: "construct = plant None None"
  by (simp add: plant_def construct_def)

lemma d_const_plant: "d_const (plant st c) = 182358771/1000000000000"
  by (simp add: d_const_def plant_fields power2_eq_square)

text \<open>With the default constants no divisor of the equations of motion vanishes.\<close>

lemma not_divisor_zero_plant: "\<not> divisor_zero (plant st c) s"
proof -
  have "0 \<le> 3 * (r_mp (plant st c))\<^sup>2 * masspole (plant st c) * s\<^sup>2"
    by (simp add: plant_fields)
  moreover have "0 < d_const (plant st c)"
    by (simp add: d_const_plant)
  ultimately have
    "d_const (plant st c) + 3 * (r_mp (plant st c))\<^sup>2 * masspole (plant st c) * s\<^sup>2 \<noteq> 0"
    by linarith
  then show ?thesis
    by (simp add: divisor_zero_def plant_fields)
qed

lemma accelerations_plant:
  "accelerations (plant st c) co si x_dot theta_dot force =
     Inr (xacc_of (plant st c) co si x_dot theta_dot force,
          thetaacc_of (plant st c) co si x_dot theta_dot force)"
  by (simp add: accelerations_def not_divisor_zero_plant)

lemma RHS_ignores_argument: "RHS e y force = RHS e y' force"
  by (simp add: RHS_def)

lemma RHS_stored:
  "state e = Some (x, x_dot, theta, theta_dot) \<Longrightarrow>
   RHS e y force =
     bind_res (accelerations e (cos theta) (sin theta) x_dot theta_dot force)
       (\<lambda>(xacc, thetaacc). Inr (x_dot, xacc, theta_dot, thetaacc))"
  by (simp add: RHS_def)

lemma RHS_plant:
  "RHS (plant (Some s) c) y force = Inr (derivative_at (plant (Some s) c) s force)"
  by (cases s) (simp add: RHS_def plant_fields accelerations_plant derivative_at_def Let_def)

lemma rk4_weights:
  "vadd y (smul (t / 6) (vadd (vadd (vadd k (smul 2 k)) (smul 2 k)) k)) = vadd y (smul t k)"
  by (cases y; cases k) (simp add: algebra_simps)

lemma rk4_update_collapse:
  "rk4_update e y force = bind_res (RHS e y force) (\<lambda>k. Inr (vadd y (smul (tau e) k)))"
proof (cases "RHS e y force")
  case (Inl err)
  then show ?thesis by (simp add: rk4_update_def)
next
  case (Inr k)
  then have "\<And>y'. RHS e y' force = Inr k"
    using RHS_ignores_argument [of e _ force y] by simp
  then show ?thesis
    by (simp add: rk4_update_def Inr rk4_weights)
qed

lemma integrate_RK4:
  "kinematics_integrator e = ''RK4'' \<Longrightarrow>
   integrate e y s xacc thetaacc force =
     bind_res (RHS e y force) (\<lambda>k. Inr (vadd y (smul (tau e) k)))"
  by (simp add: integrate_def rk4_update_collapse)

text \<open>The accelerations of the upright plant at rest under the full force.\<close>

lemma xacc_rest: "xacc_of (plant st c) 1 0 0 0 10 = 397129000/26051253"
  by (simp add: xacc_of_def plant_fields d_const_plant power2_eq_square)

lemma thetaacc_rest: "thetaacc_of (plant st c) 1 0 0 0 10 = 3908750000/112888763"
  by (simp add: thetaacc_of_def plant_fields d_const_plant power2_eq_square)

lemma xacc_spin: "xacc_of (plant st c) 1 0 0 4 0 = - 15240000/790221341"
  by (simp add: xacc_of_def plant_fields d_const_plant power2_eq_square)

lemma thetaacc_spin: "thetaacc_of (plant st c) 1 0 0 4 0 = - 97006752000000/293146040206747"
  by (simp add: thetaacc_of_def plant_fields d_const_plant power2_eq_square)

text \<open>With the default constants \<^verbatim>\<open>stepSwingUp\<close> raises only on the quotient of the re-wrap.\<close>

lemma stepSwingUp_plant:
  "cos theta \<noteq> 0 \<Longrightarrow>
   stepSwingUp (plant (Some (x, x_dot, theta, theta_dot)) c) force =
     Inr (vadd (x, x_dot, theta, theta_dot)
            (smul (1/100) (derivative_at (plant (Some (x, x_dot, theta, theta_dot)) c)
                (x, x_dot, theta, theta_dot) force)))"
  by (simp add: stepSwingUp_def plant_fields accelerations_plant integrate_RK4 RHS_plant Let_def)

text \<open>The two ways out of \<^verbatim>\<open>step\<close>.\<close>

lemma step_returns:
  assumes "stepSwingUp e
             (force_mag e * clip (max_action e * action) (- max_action e) (max_action e))
             = Inr (x', x_dot', theta', theta_dot')"
  shows "step e action =
      (Inr \<lparr>obs = (x', x_dot', cos theta', sin theta', theta_dot'),
            reward = (if \<not> \<bar>theta'\<bar> < theta_threshold_radians e / 4
                      then (if \<bar>x'\<bar> > x_threshold e then - 1000 else 1000)
                      else (case steps_beyond_terminated e of
                              None \<Rightarrow> 100 | Some n \<Rightarrow> 1000)),
            terminated = (\<bar>theta'\<bar> < theta_threshold_radians e / 4),
            off_track = (\<bar>x'\<bar> > x_threshold e),
            logged = (if \<bar>theta'\<bar> < theta_threshold_radians e / 4
                          \<and> steps_beyond_terminated e = Some 0
                      then [warning_text] else [])\<rparr>,
       e\<lparr>state := Some (x', x_dot', theta', theta_dot'),
         steps_beyond_terminated :=
           (if \<bar>theta'\<bar> < theta_threshold_radians e / 4
            then (case steps_beyond_terminated e of
                    None \<Rightarrow> Some 0 | Some n \<Rightarrow> Some (n + 1))
            else steps_beyond_terminated e)\<rparr>)"
  using assms by (simp add: step_def Let_def split: option.splits)

lemma step_raises:
  assumes "stepSwingUp e
             (force_mag e * clip (max_action e * action) (- max_action e) (max_action e))
             = Inl err"
  shows "step e action = (Inl err, e)"
  using assms by (simp add: step_def Let_def)

lemma step_counter:
  "steps_beyond_terminated (snd (step e a)) =
     (case fst (step e a) of
        Inl err \<Rightarrow> steps_beyond_terminated e
      | Inr out \<Rightarrow>
          if terminated out
          then (case steps_beyond_terminated e of None \<Rightarrow> Some 0 | Some n \<Rightarrow> Some (n + 1))
          else steps_beyond_terminated e)"
proof (cases "stepSwingUp e
                (force_mag e * clip (max_action e * a) (- max_action e) (max_action e))")
  case (Inl err)
  then show ?thesis by (simp add: step_raises)
next
  case (Inr s)
  then show ?thesis by (cases s) (simp add: step_returns)
qed

lemma step_logged:
  "fst (step e a) = Inr out \<Longrightarrow>
   logged out =
     (if terminated out \<and> steps_beyond_terminated e = Some 0 then [warning_text] else [])"
proof (cases "stepSwingUp e
                (force_mag e * clip (max_action e * a) (- max_action e) (max_action e))")
  case (Inl err)
  assume "fst (step e a) = Inr out"
  with Inl show ?thesis by (simp add: step_raises)
next
  case (Inr s)
  assume "fst (step e a) = Inr out"
  with Inr show ?thesis by (cases s) (auto simp add: step_returns)
qed

lemma step_reward:
  "fst (step e a) = Inr out \<Longrightarrow>
   reward out = (if \<not> terminated out then (if off_track out then - 1000 else 1000)
                 else (case steps_beyond_terminated e of None \<Rightarrow> 100 | Some n \<Rightarrow> 1000))"
proof (cases "stepSwingUp e
                (force_mag e * clip (max_action e * a) (- max_action e) (max_action e))")
  case (Inl err)
  assume "fst (step e a) = Inr out"
  with Inl show ?thesis by (simp add: step_raises)
next
  case (Inr s)
  assume "fst (step e a) = Inr out"
  with Inr show ?thesis by (cases s) (auto simp add: step_returns)
qed

text \<open>Once set, the counter stays set, and it never comes back to zero.\<close>

lemma counter_kept:
  "steps_beyond_terminated e \<noteq> None \<Longrightarrow> steps_beyond_terminated (snd (step e a)) \<noteq> None"
  by (auto simp add: step_counter split: sum.splits option.splits)

lemma counter_kept_steps:
  "steps_beyond_terminated e \<noteq> None \<Longrightarrow> steps_beyond_terminated (steps e as) \<noteq> None"
proof (induction as arbitrary: e)
  case Nil
  then show ?case by simp
next
  case (Cons a as)
  have "steps_beyond_terminated (snd (step e a)) \<noteq> None"
    using Cons.prems by (rule counter_kept)
  then show ?case using Cons.IH [of "snd (step e a)"] by simp
qed

lemma counter_positive:
  "steps_beyond_terminated e = Some n \<Longrightarrow> 0 < n \<Longrightarrow>
   \<exists>m. steps_beyond_terminated (snd (step e a)) = Some m \<and> 0 < m"
  by (auto simp add: step_counter split: sum.splits)

lemma no_warning_after_first:
  "steps_beyond_terminated e = Some n \<Longrightarrow> 0 < n \<Longrightarrow> warnings e as = []"
proof (induction as arbitrary: e n)
  case Nil
  then show ?case by simp
next
  case (Cons a as)
  from counter_positive [OF Cons.prems, of a]
  obtain m where m: "steps_beyond_terminated (snd (step e a)) = Some m" "0 < m" by blast
  have "warnings (snd (step e a)) as = []"
    using Cons.IH [OF m] .
  moreover have "(case fst (step e a) of Inl err \<Rightarrow> [] | Inr out \<Rightarrow> logged out) = []"
    using Cons.prems by (auto simp add: step_logged split: sum.splits)
  ultimately show ?case by simp
qed

lemma at_most_one_warning: "length (warnings e as) \<le> 1"
proof (induction as arbitrary: e)
  case Nil
  then show ?case by simp
next
  case (Cons a as)
  show ?case
  proof (cases "fst (step e a)")
    case (Inl err)
    then show ?thesis using Cons.IH [of "snd (step e a)"] by simp
  next
    case (Inr out)
    show ?thesis
    proof (cases "terminated out \<and> steps_beyond_terminated e = Some 0")
      case True
      then have "steps_beyond_terminated (snd (step e a)) = Some 1"
        using Inr by (simp add: step_counter)
      then have "warnings (snd (step e a)) as = []"
        using no_warning_after_first [of "snd (step e a)" 1 as] by simp
      then show ?thesis using Inr True by (simp add: step_logged)
    next
      case False
      then have "logged out = []"
        using Inr by (simp add: step_logged)
      then show ?thesis using Inr Cons.IH [of "snd (step e a)"] by simp
    qed
  qed
qed

text \<open>Bounds on \<open>pi\<close>, and two angles whose cosine is not zero.\<close>

lemma pi_ge_3: "3 \<le> pi"
proof -
  have "sin (pi / 6) \<le> pi / 6" by (rule sin_x_le_x) simp
  then show ?thesis by (simp add: sin_30)
qed

lemma small_angle_cos: "\<bar>theta :: real\<bar> < 1/20 \<Longrightarrow> cos theta \<noteq> 0"
proof -
  assume a: "\<bar>theta\<bar> < 1/20"
  have "3 \<le> pi" by (rule pi_ge_3)
  then have "- (pi / 2) < theta" "theta < pi / 2" using a by auto
  then have "0 < cos theta" by (rule cos_gt_zero_pi)
  then show ?thesis by simp
qed

lemma cos_7: "cos (7::real) \<noteq> 0"
proof -
  have "3 \<le> pi" by (rule pi_ge_3)
  moreover have "pi < 4" by (rule pi_less_4)
  ultimately have "- (pi / 2) < 7 - 2 * pi" "7 - 2 * pi < pi / 2" by auto
  then have "0 < cos (7 - 2 * pi)" by (rule cos_gt_zero_pi)
  moreover have "cos (7 - 2 * pi + 2 * pi) = cos (7 - 2 * pi)" by (rule cos_periodic)
  ultimately show ?thesis by simp
qed

lemma step_plant:
  assumes "cos theta \<noteq> 0"
  shows "\<exists>out e'. step (plant (Some (x, x_dot, theta, theta_dot)) c) action = (Inr out, e')"
proof -
  obtain x' xd' th' thd' where
    "stepSwingUp (plant (Some (x, x_dot, theta, theta_dot)) c)
       (force_mag (plant (Some (x, x_dot, theta, theta_dot)) c)
         * clip (max_action (plant (Some (x, x_dot, theta, theta_dot)) c) * action)
             (- max_action (plant (Some (x, x_dot, theta, theta_dot)) c))
             (max_action (plant (Some (x, x_dot, theta, theta_dot)) c)))
     = Inr (x', xd', th', thd')"
    using stepSwingUp_plant [OF assms] by (metis prod_cases4)
  from step_returns [OF this] show ?thesis by blast
qed

text \<open>The upright plant at rest stays where it is when no force is applied.\<close>

lemma rest_step:
  "step (plant (Some (0, 0, 0, 0)) c) 0 =
     (Inr \<lparr>obs = (0, 0, 1, 0, 0),
           reward = (case c of None \<Rightarrow> 100 | Some n \<Rightarrow> 1000),
           terminated = True, off_track = False,
           logged = (if c = Some 0 then [warning_text] else [])\<rparr>,
      plant (Some (0, 0, 0, 0)) (case c of None \<Rightarrow> Some 0 | Some n \<Rightarrow> Some (n + 1)))"
proof -
  let ?e = "plant (Some (0, 0, 0, 0)) c"
  have "stepSwingUp ?e 0 = Inr (0, 0, 0, 0)"
    by (simp add: stepSwingUp_plant derivative_at_def xacc_of_def thetaacc_of_def)
  then have "stepSwingUp ?e
      (force_mag ?e * clip (max_action ?e * 0) (- max_action ?e) (max_action ?e))
      = Inr (0, 0, 0, 0)"
    by (simp add: plant_fields clip_def)
  from step_returns [OF this] show ?thesis
    by (simp add: plant_fields plant_update)
qed

text \<open>
  An episode that starts upright with the pole turning at 4 rad/s: \<^verbatim>\<open>reset\<close> with the
  bounds \<open>[0, 4]\<close> and the draw \<open>(x, 0, pi, 4)\<close>, then two calls of \<^verbatim>\<open>step\<close> with action 0.
  The first call ends at the angle 0.04, inside the upright band; the second ends near
  0.08, outside it.
\<close>

lemma reset_start:
  "reset construct (bounds_options 0 4) (fixed_draw (x, x_dot, pi, theta_dot))
     = (Inr (0, 1, theta_dot, x, x_dot), plant (Some (x, x_dot, 0, theta_dot)) None)"
  by (simp add: reset_def maybe_parse_reset_bounds_def bounds_options_def fixed_draw_def
      plant_def construct_def)

lemma first_spin_step:
  "step (plant (Some (x, 0, 0, 4)) None) 0 =
     (Inr \<lparr>obs = (x, - 152400/790221341, cos (1/25), sin (1/25),
                  1171614093306988/293146040206747),
           reward = 100, terminated = True, off_track = (\<bar>x\<bar> > 1/4), logged = []\<rparr>,
      plant (Some (x, - 152400/790221341, 1/25, 1171614093306988/293146040206747)) (Some 0))"
proof -
  let ?e = "plant (Some (x, 0, 0, 4)) None"
  have "stepSwingUp ?e 0
          = Inr (x, - 152400/790221341, 1/25, 1171614093306988/293146040206747)"
    by (simp add: stepSwingUp_plant derivative_at_def xacc_spin thetaacc_spin)
  then have "stepSwingUp ?e
          (force_mag ?e * clip (max_action ?e * 0) (- max_action ?e) (max_action ?e))
          = Inr (x, - 152400/790221341, 1/25, 1171614093306988/293146040206747)"
    by (simp add: plant_fields clip_def)
  from step_returns [OF this] show ?thesis
    by (simp add: plant_fields plant_update)
qed

lemma second_spin_step:
  "\<exists>out e'.
      step (plant (Some (x, - 152400/790221341, 1/25, 1171614093306988/293146040206747))
              (Some 0)) 0 = (Inr out, e')
      \<and> \<not> terminated out
      \<and> off_track out = (\<bar>x + (- 152400/790221341) / 100\<bar> > 1/4)
      \<and> reward out = (if \<bar>x + (- 152400/790221341) / 100\<bar> > 1/4 then - 1000 else 1000)
      \<and> logged out = []"
proof -
  let ?s = "(x, - 152400/790221341, 1/25, 1171614093306988/293146040206747) :: state"
  let ?e = "plant (Some ?s) (Some 0)"
  have c: "cos (1/25 :: real) \<noteq> 0" by (rule small_angle_cos) simp
  obtain xd' thd' where
    "stepSwingUp ?e 0 = Inr (x + (- 152400/790221341) / 100, xd',
        1/25 + (1171614093306988/293146040206747) / 100, thd')"
    using stepSwingUp_plant [OF c, of x "- 152400/790221341"
        "1171614093306988/293146040206747" "Some 0" 0]
    by (simp add: derivative_at_def)
  then have "stepSwingUp ?e
      (force_mag ?e * clip (max_action ?e * 0) (- max_action ?e) (max_action ?e))
     = Inr (x + (- 152400/790221341) / 100, xd',
        1/25 + (1171614093306988/293146040206747) / 100, thd')"
    by (simp add: plant_fields clip_def)
  from step_returns [OF this] show ?thesis
    by (simp add: plant_fields)
qed

text \<open>
  The cart acceleration times the common divisor \<open>D\<close> is a sum without divisions by
  \<open>D\<close>; with the default constants and the full force it is positive while the
  velocities are small.
\<close>

lemma xacc_numerator:
  assumes "Rm e \<noteq> 0" "length_p e \<noteq> 0" "D \<noteq> 0"
    and D: "d_const e + 3 * (r_mp e)\<^sup>2 * masspole e * s\<^sup>2 = D"
  shows "xacc_of e c s v w F * D =
      (- 4 * (Rm e * (r_mp e)\<^sup>2 * Beq e + (Kg e)\<^sup>2 * Kt e * Km e)) / Rm e * v
      + (- 3 * Bp e * (r_mp e)\<^sup>2 * c) / length_p e * w
      + (- 4 * masspole e * length_p e * (r_mp e)\<^sup>2 * s) * w\<^sup>2
      + 3 * masspole e * gravity e * (r_mp e)\<^sup>2 * c * s
      + (4 * r_mp e * Kg e * Kt e) / Rm e * F"
  using assms(1-3) unfolding xacc_of_def Let_def D
  by (simp add: field_simps)

lemma xacc_positive:
  assumes "\<bar>c\<bar> \<le> 1" "\<bar>s\<bar> \<le> 1" "\<bar>v\<bar> \<le> 1/10" "\<bar>w\<bar> \<le> 1"
  shows "0 < xacc_of (plant st k) c s v w 10"
proof -
  define D where
    "D = d_const (plant st k) + 3 * (r_mp (plant st k))\<^sup>2 * masspole (plant st k) * s\<^sup>2"
  have "0 \<le> 3 * (r_mp (plant st k))\<^sup>2 * masspole (plant st k) * s\<^sup>2"
    by (simp add: plant_fields)
  moreover have "0 < d_const (plant st k)" by (simp add: d_const_plant)
  ultimately have Dpos: "0 < D" unfolding D_def by linarith
  have cw: "\<bar>c * w\<bar> \<le> 1"
    using assms(1,4) by (simp add: abs_mult mult_le_one)
  have "\<bar>w\<^sup>2\<bar> \<le> 1" using assms(4) by (simp add: power_le_one_iff abs_square_le_1)
  then have sw: "\<bar>s * w\<^sup>2\<bar> \<le> 1"
    using assms(2) by (simp only: abs_mult) (rule mult_le_one, simp_all)
  have cs: "\<bar>c * s\<bar> \<le> 1"
    using assms(1,2) by (simp add: abs_mult mult_le_one)
  have eq: "xacc_of (plant st k) c s v w 10 * D =
      - (10583498173/5000000000000) * v - (1143/1300000000) * (c * w)
      - (612466517/50000000000000) * (s * w\<^sup>2) + (1091755881/4000000000000) * (c * s)
      + 2779903/1000000000"
    using xacc_numerator [of "plant st k" D s c v w 10] Dpos
    by (simp add: D_def plant_fields power2_eq_square)
  have "0 < xacc_of (plant st k) c s v w 10 * D"
    unfolding eq using assms(3) cw sw cs by linarith
  then show ?thesis using Dpos by (simp add: zero_less_mult_iff)
qed

text \<open>The second and third stage of the reference integrator from rest under the full force.\<close>

lemma xacc_stage2:
  "xacc_of (plant st c) 1 0 (1985645/26051253) (19543750/112888763) 10
     = 1646856156759616061/114694855305031521"
  by (simp add: xacc_of_def plant_fields d_const_plant power2_eq_square)

lemma thetaacc_stage2:
  "thetaacc_of (plant st c) 1 0 (1985645/26051253) (19543750/112888763) 10
     = 462368647390566443671250/14182668795980542750269"
  by (simp add: thetaacc_of_def plant_fields d_const_plant power2_eq_square)

lemma rk4_spec_fst:
  "fst (rk4_spec (plant st c) (0, 0, 0, 0) 10) =
     (397129000/26051253 + 1646856156759616061/114694855305031521
      + xacc_of (plant st c) (cos (390875/451555052)) (sin (390875/451555052))
          (1646856156759616061/22938971061006304200)
          (9247372947811328873425/56730675183922171001076) 10) / 60000"
  by (simp add: rk4_spec_def Let_def derivative_at_def plant_fields xacc_rest thetaacc_rest
      xacc_stage2 thetaacc_stage2)

lemma divisor_zero_integrator:
  "divisor_zero (e\<lparr>kinematics_integrator := k\<rparr>) s = divisor_zero e s"
  by (simp add: divisor_zero_def d_const_def)

text \<open>A sample of the generator lies between the bounds it was given.\<close>

lemma sample_in_bounds:
  fixes low high r :: real
  assumes "low \<le> high" "0 \<le> r" "r < 1"
  shows "low \<le> low + (high - low) * r \<and> low + (high - low) * r \<le> high"
proof -
  have "0 \<le> (high - low) * r"
    using assms by simp
  moreover have "(high - low) * r \<le> high - low"
    using assms by (simp add: mult_left_le)
  ultimately show ?thesis by simp
qed

text \<open>\<^verbatim>\<open>reset\<close> with no options, and with both bounds in the options.\<close>

lemma reset_default:
  "reset e None uniform =
     (case uniform (- 0.08) 0.08 of (u0, u1, u2, u3) \<Rightarrow>
        (Inr (sin (u2 - pi), cos (u2 - pi), u3, u0, u1),
         e\<lparr>state := Some (u0, u1, u2 - pi, u3), steps_beyond_terminated := None\<rparr>))"
  by (cases "uniform (- 0.08) 0.08")
     (simp add: reset_def maybe_parse_reset_bounds_def Let_def)

lemma reset_bounds:
  "low \<le> high \<Longrightarrow>
   reset e (bounds_options low high) uniform =
     (case uniform low high of (u0, u1, u2, u3) \<Rightarrow>
        (Inr (sin (u2 - pi), cos (u2 - pi), u3, u0, u1),
         e\<lparr>state := Some (u0, u1, u2 - pi, u3), steps_beyond_terminated := None\<rparr>))"
  by (cases "uniform low high")
     (simp add: reset_def maybe_parse_reset_bounds_def bounds_options_def Let_def)

subsection \<open>The integrator\<close>

text \<open>
  C3. In the mode \<^verbatim>\<open>"RK4"\<close> every one of the four calls of \<^verbatim>\<open>RHS\<close> reads the stored
  state, so the four stages are one and the same vector \<open>k\<close>, and the state that
  \<^verbatim>\<open>stepPhysics\<close> and \<^verbatim>\<open>stepSwingUp\<close> return is the single explicit Euler update
  \<open>s + tau * k\<close> with \<open>k = RHS(s, F)\<close>, over exact real arithmetic. The equations say
  when the call returns at all: when \<^verbatim>\<open>RHS\<close> does and, for \<^verbatim>\<open>stepSwingUp\<close>, the
  quotient \<^verbatim>\<open>sintheta/costheta\<close> has a divisor other than zero.
\<close>

theorem rk4_mode_is_one_euler_update:
  assumes "kinematics_integrator e = ''RK4''"
    and "state e = Some (x, x_dot, theta, theta_dot)"
  shows "stepPhysics e force =
           bind_res (RHS e (x, x_dot, theta, theta_dot) force)
             (\<lambda>k. Inr (vadd (x, x_dot, theta, theta_dot) (smul (tau e) k)))
       \<and> stepSwingUp e force =
           (if cos theta = 0 then Inl ZeroDivisionError
            else bind_res (RHS e (x, x_dot, theta, theta_dot) force)
                   (\<lambda>k. Inr (vadd (x, x_dot, theta, theta_dot) (smul (tau e) k))))"
proof -
  let ?acc = "accelerations e (cos theta) (sin theta) x_dot theta_dot force"
  show ?thesis
  proof (cases ?acc)
    case (Inl err)
    then show ?thesis
      using assms by (simp add: stepPhysics_def stepSwingUp_def RHS_stored)
  next
    case (Inr p)
    then show ?thesis
      using assms
      by (cases p) (simp add: stepPhysics_def stepSwingUp_def integrate_RK4 RHS_stored)
  qed
qed

theorem rk4_mode_is_one_euler_update_witness:
  "kinematics_integrator (plant (Some (0, 0, 0, 0)) None) = ''RK4''
   \<and> state (plant (Some (0, 0, 0, 0)) None) = Some (0, 0, 0, 0)
   \<and> RHS (plant (Some (0, 0, 0, 0)) None) (0, 0, 0, 0) 10
       = Inr (0, 397129000/26051253, 0, 3908750000/112888763)
   \<and> stepPhysics (plant (Some (0, 0, 0, 0)) None) 10
       = Inr (0, 3971290/26051253, 0, 39087500/112888763)
   \<and> stepSwingUp (plant (Some (0, 0, 0, 0)) None) 10
       = Inr (0, 3971290/26051253, 0, 39087500/112888763)"
  using rk4_mode_is_one_euler_update [of "plant (Some (0, 0, 0, 0)) None" 0 0 0 0 10]
  by (simp add: plant_fields RHS_plant derivative_at_def xacc_rest thetaacc_rest)

text \<open>
  C1. The claim is that one step in the mode \<^verbatim>\<open>"RK4"\<close> is the classical Runge-Kutta
  step \<open>rk4_spec\<close>, each stage being the derivative at the perturbed state. The code does
  not do that. From the upright plant at rest under the force 10 (action 1),
  \<^verbatim>\<open>stepSwingUp\<close> returns the cart position 0, the position of one Euler update, while
  the classical step moves the cart: its first component is positive.
\<close>

theorem rk4_mode_misses_runge_kutta:
  "stepSwingUp (plant (Some (0, 0, 0, 0)) None) 10
     = Inr (0, 3971290/26051253, 0, 39087500/112888763)
   \<and> 0 < fst (rk4_spec (plant (Some (0, 0, 0, 0)) None) (0, 0, 0, 0) 10)"
proof -
  have "\<bar>cos (390875/451555052 :: real)\<bar> \<le> 1" "\<bar>sin (390875/451555052 :: real)\<bar> \<le> 1"
    by simp_all
  then have "0 < xacc_of (plant (Some (0, 0, 0, 0)) None)
          (cos (390875/451555052)) (sin (390875/451555052))
          (1646856156759616061/22938971061006304200)
          (9247372947811328873425/56730675183922171001076) 10"
    by (rule xacc_positive) simp_all
  then have "0 < fst (rk4_spec (plant (Some (0, 0, 0, 0)) None) (0, 0, 0, 0) 10)"
    unfolding rk4_spec_fst by simp
  moreover have "stepSwingUp (plant (Some (0, 0, 0, 0)) None) 10
     = Inr (0, 3971290/26051253, 0, 39087500/112888763)"
    by (simp add: stepSwingUp_plant derivative_at_def xacc_rest thetaacc_rest)
  ultimately show ?thesis by simp
qed

text \<open>
  C2. The claim is that \<^verbatim>\<open>RHS(y, force)\<close> is the derivative at its argument \<open>y\<close>. With
  the stored state at rest and the argument \<open>y = (0, 1, 0, 0)\<close>, a cart moving at 1 m/s,
  \<^verbatim>\<open>RHS\<close> returns the zero vector, the derivative at the stored state; the derivative
  at \<open>y\<close> has the first component 1.
\<close>

theorem RHS_reads_stored_state:
  "RHS (plant (Some (0, 0, 0, 0)) None) (0, 1, 0, 0) 0 = Inr (0, 0, 0, 0)
   \<and> fst (derivative_at (plant (Some (0, 0, 0, 0)) None) (0, 1, 0, 0) 0) = 1"
  by (simp add: RHS_plant derivative_at_def xacc_of_def thetaacc_of_def)

text \<open>
  C4. The claim is that \<^verbatim>\<open>stepSwingUp\<close> folds the angle into a principal range
  through \<open>atan2\<close>, for every angle, without changing the physics. In the mode
  \<^verbatim>\<open>"RK4"\<close> the folded angle is overwritten: from the stored angle 7, more than a full
  turn, the returned angle is 7 again, above \<open>pi\<close>. In the mode \<^verbatim>\<open>"euler"\<close> the fold
  is \<open>arctan (sin theta / cos theta)\<close>, which sends the hanging pole at rest, \<open>theta = pi\<close>,
  to the upright angle 0.
\<close>

theorem rewrap_lost_or_wrong:
  "stepSwingUp (plant (Some (0, 0, 7, 0)) None) 0
     = Inr (0, xacc_of (plant (Some (0, 0, 7, 0)) None) (cos 7) (sin 7) 0 0 0 / 100, 7,
            thetaacc_of (plant (Some (0, 0, 7, 0)) None) (cos 7) (sin 7) 0 0 0 / 100)
   \<and> pi < 7
   \<and> stepSwingUp ((plant (Some (0, 0, pi, 0)) None)\<lparr>kinematics_integrator := ''euler''\<rparr>) 0
       = Inr (0, 0, 0, 0)"
proof -
  have "stepSwingUp (plant (Some (0, 0, 7, 0)) None) 0
     = Inr (0, xacc_of (plant (Some (0, 0, 7, 0)) None) (cos 7) (sin 7) 0 0 0 / 100, 7,
            thetaacc_of (plant (Some (0, 0, 7, 0)) None) (cos 7) (sin 7) 0 0 0 / 100)"
    using stepSwingUp_plant [OF cos_7, of 0 0 0 None 0] by (simp add: derivative_at_def)
  moreover have "pi < 7" using pi_less_4 by simp
  moreover have
    "stepSwingUp ((plant (Some (0, 0, pi, 0)) None)\<lparr>kinematics_integrator := ''euler''\<rparr>) 0
       = Inr (0, 0, 0, 0)"
    by (simp add: stepSwingUp_def accelerations_def divisor_zero_integrator
        not_divisor_zero_plant integrate_def euler_update_def xacc_of_def thetaacc_of_def
        plant_fields Let_def)
  ultimately show ?thesis by simp
qed

subsection \<open>The uninitialised plant\<close>

text \<open>
  C10. On the object that \<^verbatim>\<open>__init__\<close> returns, before any \<^verbatim>\<open>reset\<close>, \<^verbatim>\<open>step\<close> fails
  for every action with the assertion error of \<^verbatim>\<open>stepSwingUp\<close>
  ("Call reset before using step method."): no state is computed and the object is left
  as it was, still without a state.
\<close>

theorem step_before_reset_fails:
  "step construct action = (Inl AssertionError, construct)
   \<and> stepSwingUp construct force = Inl AssertionError
   \<and> state construct = None"
  by (simp add: step_def stepSwingUp_def construct_def)

subsection \<open>Flags, rewards and observations\<close>

text \<open>
  C5. When the integrator returns the state \<open>(x', x_dot', theta', theta_dot')\<close> for the
  clamped and scaled action, \<^verbatim>\<open>step\<close> returns, stores that state, and classifies it:
  \<open>terminated\<close> is \<open>|theta'| < theta_threshold_radians / 4\<close>, \<open>off_track\<close> is
  \<open>|x'| > x_threshold\<close>; the reward is 1000 when neither holds, -1000 when only
  \<open>off_track\<close> holds, 100 when \<open>terminated\<close> holds and the counter is unset (it becomes
  0), and 1000 when \<open>terminated\<close> holds and the counter is set (it grows by one).
\<close>

theorem step_flags_and_reward:
  assumes "stepSwingUp e
             (force_mag e * clip (max_action e * action) (- max_action e) (max_action e))
             = Inr (x', x_dot', theta', theta_dot')"
  shows "\<exists>out e'. step e action = (Inr out, e')
      \<and> state e' = Some (x', x_dot', theta', theta_dot')
      \<and> terminated out = (\<bar>theta'\<bar> < theta_threshold_radians e / 4)
      \<and> off_track out = (\<bar>x'\<bar> > x_threshold e)
      \<and> reward out =
          (if \<not> terminated out then (if off_track out then - 1000 else 1000)
           else (case steps_beyond_terminated e of None \<Rightarrow> 100 | Some n \<Rightarrow> 1000))
      \<and> steps_beyond_terminated e' =
          (if \<not> terminated out then steps_beyond_terminated e
           else (case steps_beyond_terminated e of
                   None \<Rightarrow> Some 0 | Some n \<Rightarrow> Some (n + 1)))"
  by (simp add: step_returns [OF assms])

theorem step_flags_and_reward_witness:
  "stepSwingUp (plant (Some (3/10, 0, 0, 4)) None)
     (force_mag (plant (Some (3/10, 0, 0, 4)) None)
       * clip (max_action (plant (Some (3/10, 0, 0, 4)) None) * 0)
           (- max_action (plant (Some (3/10, 0, 0, 4)) None))
           (max_action (plant (Some (3/10, 0, 0, 4)) None)))
     = Inr (3/10, - 152400/790221341, 1/25, 1171614093306988/293146040206747)
   \<and> (\<exists>out e'. step (plant (Some (3/10, 0, 0, 4)) None) 0 = (Inr out, e')
         \<and> state e' = Some (3/10, - 152400/790221341, 1/25, 1171614093306988/293146040206747)
         \<and> terminated out \<and> off_track out \<and> reward out = 100
         \<and> steps_beyond_terminated e' = Some 0)"
proof -
  have h: "stepSwingUp (plant (Some (3/10, 0, 0, 4)) None)
     (force_mag (plant (Some (3/10, 0, 0, 4)) None)
       * clip (max_action (plant (Some (3/10, 0, 0, 4)) None) * 0)
           (- max_action (plant (Some (3/10, 0, 0, 4)) None))
           (max_action (plant (Some (3/10, 0, 0, 4)) None)))
     = Inr (3/10, - 152400/790221341, 1/25, 1171614093306988/293146040206747)"
    by (simp add: plant_fields clip_def stepSwingUp_plant derivative_at_def xacc_spin
        thetaacc_spin)
  show ?thesis
    using h step_flags_and_reward [OF h]
    by (simp add: plant_fields cong: conj_cong)
qed

text \<open>
  C9. The observation that \<^verbatim>\<open>step\<close> returns is \<open>(x, x_dot, cos theta, sin theta,
  theta_dot)\<close> of the state it has just stored; the observation that \<^verbatim>\<open>reset\<close>
  returns is \<open>(sin theta, cos theta, theta_dot, x, x_dot)\<close> of the state it has just
  sampled.
\<close>

theorem observation_orders:
  "(step e action = (Inr out, e') \<longrightarrow>
      (\<exists>x x_dot theta theta_dot. state e' = Some (x, x_dot, theta, theta_dot)
         \<and> obs out = (x, x_dot, cos theta, sin theta, theta_dot)))
   \<and> (reset e0 options uniform = (Inr ob, e'') \<longrightarrow>
      (\<exists>x x_dot theta theta_dot. state e'' = Some (x, x_dot, theta, theta_dot)
         \<and> ob = (sin theta, cos theta, theta_dot, x, x_dot)))"
proof (intro conjI impI)
  assume a: "step e action = (Inr out, e')"
  let ?f = "force_mag e * clip (max_action e * action) (- max_action e) (max_action e)"
  show "\<exists>x x_dot theta theta_dot. state e' = Some (x, x_dot, theta, theta_dot)
         \<and> obs out = (x, x_dot, cos theta, sin theta, theta_dot)"
  proof (cases "stepSwingUp e ?f")
    case (Inl err)
    then show ?thesis using a step_raises [of e action err] by simp
  next
    case (Inr s)
    obtain x x_dot theta theta_dot where s: "s = (x, x_dot, theta, theta_dot)"
      by (cases s) auto
    show ?thesis
      using a step_returns [of e action x x_dot theta theta_dot] Inr s by auto
  qed
next
  assume a: "reset e0 options uniform = (Inr ob, e'')"
  show "\<exists>x x_dot theta theta_dot. state e'' = Some (x, x_dot, theta, theta_dot)
         \<and> ob = (sin theta, cos theta, theta_dot, x, x_dot)"
    using a
    by (auto simp add: reset_def Let_def split: sum.splits prod.splits)
qed

theorem observation_orders_witness:
  "step (plant (Some (3/10, 0, 0, 4)) None) 0 =
     (Inr \<lparr>obs = (3/10, - 152400/790221341, cos (1/25), sin (1/25),
                  1171614093306988/293146040206747),
           reward = 100, terminated = True, off_track = True, logged = []\<rparr>,
      plant (Some (3/10, - 152400/790221341, 1/25, 1171614093306988/293146040206747))
        (Some 0))
   \<and> reset construct (bounds_options 0 4) (fixed_draw (3/10, 0, pi, 4))
       = (Inr (0, 1, 4, 3/10, 0), plant (Some (3/10, 0, 0, 4)) None)
   \<and> reset construct None (fixed_draw (1/100, 1/50, 0, 1/25))
       = (Inr (0, - 1, 1/25, 1/100, 1/50), plant (Some (1/100, 1/50, - pi, 1/25)) None)"
proof -
  have r: "reset construct None (fixed_draw (1/100, 1/50, 0, 1/25))
       = (Inr (0, - 1, 1/25, 1/100, 1/50), plant (Some (1/100, 1/50, - pi, 1/25)) None)"
    by (simp add: reset_def maybe_parse_reset_bounds_def fixed_draw_def plant_def
        construct_def)
  show ?thesis
    using observation_orders [of "plant (Some (3/10, 0, 0, 4)) None" 0
        "\<lparr>obs = (3/10, - 152400/790221341, cos (1/25), sin (1/25),
                  1171614093306988/293146040206747),
           reward = 100, terminated = True, off_track = True, logged = []\<rparr>"
        "plant (Some (3/10, - 152400/790221341, 1/25, 1171614093306988/293146040206747))
           (Some 0)"
        construct None "fixed_draw (1/100, 1/50, 0, 1/25)" "(0, - 1, 1/25, 1/100, 1/50)"
        "plant (Some (1/100, 1/50, - pi, 1/25)) None"]
      r
    by (simp add: first_spin_step reset_start)
qed

subsection \<open>After termination\<close>

text \<open>
  C6, as the code has it. Once a call of \<^verbatim>\<open>step\<close> has returned \<open>terminated\<close> and no
  \<^verbatim>\<open>reset\<close> follows, every later call that returns has the reward 1000, except a call
  whose own state is off the track and not upright, which has the reward -1000. The
  terminal call itself has the reward 100 when it is the first one, that is, when the
  counter was unset.
\<close>

theorem post_terminal_reward:
  assumes "step e a0 = (Inr out0, e1)" and "terminated out0"
    and "step (steps e1 as) a = (Inr out, e')"
  shows "reward out0 = (if steps_beyond_terminated e = None then 100 else 1000)
       \<and> reward out = (if \<not> terminated out \<and> off_track out then - 1000 else 1000)"
proof -
  have "steps_beyond_terminated e1 \<noteq> None"
    using assms(1,2) step_counter [of e a0] by (auto split: option.splits)
  then have "steps_beyond_terminated (steps e1 as) \<noteq> None"
    by (rule counter_kept_steps)
  then have "reward out = (if \<not> terminated out \<and> off_track out then - 1000 else 1000)"
    using assms(3) step_reward [of "steps e1 as" a out] by auto
  moreover have "reward out0 = (if steps_beyond_terminated e = None then 100 else 1000)"
    using assms(1,2) step_reward [of e a0 out0] by (auto split: option.splits)
  ultimately show ?thesis by simp
qed

theorem post_terminal_reward_witness:
  "step (plant (Some (0, 0, 0, 0)) None) 0 =
     (Inr \<lparr>obs = (0, 0, 1, 0, 0), reward = 100, terminated = True, off_track = False,
           logged = []\<rparr>,
      plant (Some (0, 0, 0, 0)) (Some 0))
   \<and> steps (plant (Some (0, 0, 0, 0)) (Some 0)) [0] = plant (Some (0, 0, 0, 0)) (Some 1)
   \<and> step (steps (plant (Some (0, 0, 0, 0)) (Some 0)) [0]) 0 =
     (Inr \<lparr>obs = (0, 0, 1, 0, 0), reward = 1000, terminated = True, off_track = False,
           logged = []\<rparr>,
      plant (Some (0, 0, 0, 0)) (Some 2))"
  using post_terminal_reward [of "plant (Some (0, 0, 0, 0)) None" 0
      "\<lparr>obs = (0, 0, 1, 0, 0), reward = 100, terminated = True, off_track = False,
        logged = []\<rparr>"
      "plant (Some (0, 0, 0, 0)) (Some 0)" "[0]" 0
      "\<lparr>obs = (0, 0, 1, 0, 0), reward = 1000, terminated = True, off_track = False,
        logged = []\<rparr>"
      "plant (Some (0, 0, 0, 0)) (Some 2)"]
  by (simp add: rest_step)

text \<open>
  C6 as stated fails. After \<^verbatim>\<open>reset\<close> with the bounds \<open>[0, 4]\<close> and the draw
  \<open>(0.3, 0, pi, 4)\<close> the first \<^verbatim>\<open>step\<close> returns \<open>terminated = True\<close>; the second, with
  no \<^verbatim>\<open>reset\<close> between, ends outside the upright band with the cart off the track and
  returns the reward -1000, not 1000.
\<close>

theorem post_terminal_reward_counterexample:
  "map_sum id terminated
     (fst (step (snd (reset construct (bounds_options 0 4) (fixed_draw (3/10, 0, pi, 4)))) 0))
     = Inr True
   \<and> map_sum id reward
     (fst (step (snd (step (snd (reset construct (bounds_options 0 4)
                                   (fixed_draw (3/10, 0, pi, 4)))) 0)) 0))
     = Inr (- 1000)"
proof -
  from second_spin_step [of "3/10"] obtain out e' where
    "step (plant (Some (3/10, - 152400/790221341, 1/25, 1171614093306988/293146040206747))
            (Some 0)) 0 = (Inr out, e')" "reward out = - 1000"
    by auto
  then show ?thesis
    by (simp add: reset_start first_spin_step)
qed

text \<open>
  C7, as the code has it. With the default constants a call of \<^verbatim>\<open>step\<close> on a stored
  state whose angle has a cosine other than zero returns, whatever the counter; its
  reward follows the table of C5; and it logs the warning exactly when its own state is
  \<open>terminated\<close> and the counter is 0, that is, on the first call after the first terminal
  one that is itself terminal. A sequence of calls with no \<^verbatim>\<open>reset\<close> between them logs
  the warning at most once.
\<close>

theorem post_terminal_warning:
  "(cos theta \<noteq> 0 \<longrightarrow>
      (\<exists>out e'. step (plant (Some (x, x_dot, theta, theta_dot)) c) action = (Inr out, e')
         \<and> logged out = (if terminated out \<and> c = Some 0 then [warning_text] else [])
         \<and> reward out = (if \<not> terminated out then (if off_track out then - 1000 else 1000)
                 else (case c of None \<Rightarrow> 100 | Some n \<Rightarrow> 1000))))
   \<and> length (warnings e as) \<le> 1"
proof (intro conjI impI)
  assume "cos theta \<noteq> 0"
  from step_plant [OF this] obtain out e'
    where s: "step (plant (Some (x, x_dot, theta, theta_dot)) c) action = (Inr out, e')"
    by blast
  then have f: "fst (step (plant (Some (x, x_dot, theta, theta_dot)) c) action) = Inr out"
    by simp
  show "\<exists>out e'. step (plant (Some (x, x_dot, theta, theta_dot)) c) action = (Inr out, e')
         \<and> logged out = (if terminated out \<and> c = Some 0 then [warning_text] else [])
         \<and> reward out = (if \<not> terminated out then (if off_track out then - 1000 else 1000)
                 else (case c of None \<Rightarrow> 100 | Some n \<Rightarrow> 1000))"
    using s step_logged [OF f] step_reward [OF f] by (simp add: plant_fields)
next
  show "length (warnings e as) \<le> 1" by (rule at_most_one_warning)
qed

theorem post_terminal_warning_witness:
  "cos (0::real) \<noteq> 0
   \<and> (\<exists>out e'. step (plant (Some (0, 0, 0, 0)) (Some 0)) 0 = (Inr out, e')
         \<and> logged out = [warning_text] \<and> reward out = 1000 \<and> terminated out)
   \<and> warnings (plant (Some (0, 0, 0, 0)) None) [0, 0, 0] = [warning_text]
   \<and> length (warnings (plant (Some (0, 0, 0, 0)) None) [0, 0, 0]) \<le> 1"
  using post_terminal_warning [of 0 0 0 0 "Some 0" 0 "plant (Some (0, 0, 0, 0)) None"
      "[0, 0, 0]"]
  by (simp add: rest_step)

text \<open>
  C7 as stated fails. After \<^verbatim>\<open>reset\<close> with the bounds \<open>[0, 4]\<close> and the draw
  \<open>(0, 0, pi, 4)\<close> the first \<^verbatim>\<open>step\<close> returns \<open>terminated = True\<close>; the second is the
  first call after termination, and it logs nothing: its own state is outside the
  upright band.
\<close>

theorem post_terminal_warning_counterexample:
  "map_sum id terminated
     (fst (step (snd (reset construct (bounds_options 0 4) (fixed_draw (0, 0, pi, 4)))) 0))
     = Inr True
   \<and> map_sum id logged
     (fst (step (snd (step (snd (reset construct (bounds_options 0 4)
                                   (fixed_draw (0, 0, pi, 4)))) 0)) 0))
     = Inr []"
proof -
  from second_spin_step [of 0] obtain out e' where
    "step (plant (Some (0, - 152400/790221341, 1/25, 1171614093306988/293146040206747))
            (Some 0)) 0 = (Inr out, e')" "logged out = []"
    by auto
  then show ?thesis
    by (simp add: reset_start first_spin_step)
qed

subsection \<open>The fresh episode\<close>

text \<open>
  C8. \<^verbatim>\<open>reset\<close> makes one call of the generator for four numbers, with the bounds
  the caller gave in the options, or with -0.08 and 0.08 when there are no options. With
  \<open>(u0, u1, u2, u3)\<close> the four numbers drawn for those bounds, the new state is
  \<open>(u0, u1, u2 - pi, u3)\<close>: \<open>pi\<close> is taken from the angle only. The counter is cleared
  and nothing else of the object changes. When the generator is numpy's, fed with four
  doubles of \<open>[0, 1)\<close>, every draw lies between the caller's bounds, so the new angle
  lies in \<open>[low - pi, high - pi]\<close>, next to the hanging position.
\<close>

theorem reset_state:
  assumes "options = None \<and> low = - 0.08 \<and> high = 0.08
         \<or> options = bounds_options low high \<and> low \<le> high"
    and "uniform low high = (u0, u1, u2, u3)"
  shows "reset e options uniform =
           (Inr (sin (u2 - pi), cos (u2 - pi), u3, u0, u1),
            e\<lparr>state := Some (u0, u1, u2 - pi, u3), steps_beyond_terminated := None\<rparr>)
       \<and> (uniform = np_uniform (r0, r1, r2, r3)
            \<and> 0 \<le> r0 \<and> r0 < 1 \<and> 0 \<le> r1 \<and> r1 < 1
            \<and> 0 \<le> r2 \<and> r2 < 1 \<and> 0 \<le> r3 \<and> r3 < 1 \<longrightarrow>
          low \<le> u0 \<and> u0 \<le> high \<and> low \<le> u1 \<and> u1 \<le> high
          \<and> low - pi \<le> u2 - pi \<and> u2 - pi \<le> high - pi
          \<and> low \<le> u3 \<and> u3 \<le> high)"
proof
  show "reset e options uniform =
           (Inr (sin (u2 - pi), cos (u2 - pi), u3, u0, u1),
            e\<lparr>state := Some (u0, u1, u2 - pi, u3), steps_beyond_terminated := None\<rparr>)"
  proof (cases "options = None")
    case True
    then have lh: "low = - 0.08" "high = 0.08"
      using assms(1) by (auto simp add: bounds_options_def)
    have u: "uniform (- 0.08) 0.08 = (u0, u1, u2, u3)"
      using assms(2) unfolding lh .
    show ?thesis
      unfolding True reset_default u by simp
  next
    case False
    then have o: "options = bounds_options low high" and le: "low \<le> high"
      using assms(1) by auto
    show ?thesis
      unfolding o reset_bounds [OF le] assms(2) by simp
  qed
next
  have le: "low \<le> high"
    using assms(1) by auto
  show "uniform = np_uniform (r0, r1, r2, r3)
            \<and> 0 \<le> r0 \<and> r0 < 1 \<and> 0 \<le> r1 \<and> r1 < 1
            \<and> 0 \<le> r2 \<and> r2 < 1 \<and> 0 \<le> r3 \<and> r3 < 1 \<longrightarrow>
          low \<le> u0 \<and> u0 \<le> high \<and> low \<le> u1 \<and> u1 \<le> high
          \<and> low - pi \<le> u2 - pi \<and> u2 - pi \<le> high - pi
          \<and> low \<le> u3 \<and> u3 \<le> high"
  proof
    assume a: "uniform = np_uniform (r0, r1, r2, r3)
            \<and> 0 \<le> r0 \<and> r0 < 1 \<and> 0 \<le> r1 \<and> r1 < 1
            \<and> 0 \<le> r2 \<and> r2 < 1 \<and> 0 \<le> r3 \<and> r3 < 1"
    then have u: "u0 = low + (high - low) * r0" "u1 = low + (high - low) * r1"
      "u2 = low + (high - low) * r2" "u3 = low + (high - low) * r3"
      using assms(2) by (simp_all add: np_uniform_def)
    show "low \<le> u0 \<and> u0 \<le> high \<and> low \<le> u1 \<and> u1 \<le> high
          \<and> low - pi \<le> u2 - pi \<and> u2 - pi \<le> high - pi
          \<and> low \<le> u3 \<and> u3 \<le> high"
      using sample_in_bounds [OF le, of r0] sample_in_bounds [OF le, of r1]
        sample_in_bounds [OF le, of r2] sample_in_bounds [OF le, of r3] a
      unfolding u by simp
  qed
qed

theorem reset_state_witness:
  "np_uniform (1/4, 1/2, 3/4, 0) (- 1) 3 = (0, 1, 2, - 1)
   \<and> reset (plant (Some (0, 0, 0, 0)) (Some 3)) (bounds_options (- 1) 3)
         (np_uniform (1/4, 1/2, 3/4, 0))
       = (Inr (sin (2 - pi), cos (2 - pi), - 1, 0, 1), plant (Some (0, 1, 2 - pi, - 1)) None)
   \<and> - 1 - pi \<le> 2 - pi \<and> 2 - pi \<le> 3 - pi
   \<and> np_uniform (1/4, 1/2, 3/4, 0) (- 0.08) 0.08 = (- 1/25, 0, 1/25, - 2/25)
   \<and> reset (plant (Some (0, 0, 0, 0)) (Some 3)) None (np_uniform (1/4, 1/2, 3/4, 0))
       = (Inr (sin (1/25 - pi), cos (1/25 - pi), - 2/25, - 1/25, 0),
          plant (Some (- 1/25, 0, 1/25 - pi, - 2/25)) None)"
proof -
  have u: "np_uniform (1/4, 1/2, 3/4, 0) (- 1) 3 = (0, 1, 2, - 1)"
    by (simp add: np_uniform_def)
  have v: "np_uniform (1/4, 1/2, 3/4, 0) (- 0.08) 0.08 = (- 1/25, 0, 1/25, - 2/25)"
    by (simp add: np_uniform_def)
  have b: "bounds_options (- 1) 3 = bounds_options (- 1) 3 \<and> (- 1 :: real) \<le> 3"
    by simp
  have d: "(None :: (string \<rightharpoonup> real) option) = None
           \<and> (- 0.08 :: real) = - 0.08 \<and> (0.08 :: real) = 0.08"
    by simp
  note w1 = reset_state [where options = "bounds_options (- 1) 3" and low = "- 1" and high = 3
      and uniform = "np_uniform (1/4, 1/2, 3/4, 0)"
      and ?u0.0 = 0 and ?u1.0 = 1 and ?u2.0 = 2 and ?u3.0 = "- 1"
      and e = "plant (Some (0, 0, 0, 0)) (Some 3)"
      and ?r0.0 = "1/4" and ?r1.0 = "1/2" and ?r2.0 = "3/4" and ?r3.0 = 0,
      OF disjI2 [OF b] u]
  note w2 = reset_state [where options = None and low = "- 0.08" and high = "0.08"
      and uniform = "np_uniform (1/4, 1/2, 3/4, 0)"
      and ?u0.0 = "- 1/25" and ?u1.0 = 0 and ?u2.0 = "1/25" and ?u3.0 = "- 2/25"
      and e = "plant (Some (0, 0, 0, 0)) (Some 3)"
      and ?r0.0 = "1/4" and ?r1.0 = "1/2" and ?r2.0 = "3/4" and ?r3.0 = 0,
      OF disjI1 [OF d] v]
  show ?thesis
    using u v w1 w2 by (simp add: plant_update)
qed

end
